theory Spec2Isabelle
  imports Complex_Main "HOL-Library.Word"
begin

section \<open>Go error values\<close>

text \<open>
  The error values that \<^verbatim>\<open>pkg/tsdb/prometheus/prometheus.go\<close> creates or inspects.
  A Go \<^verbatim>\<open>error\<close> is an interface; what this file can observe of a value is its text
  (\<^verbatim>\<open>Error()\<close>), the error it wraps (\<^verbatim>\<open>Unwrap()\<close>) and whether its dynamic type is
  \<^verbatim>\<open>*apiv1.Error\<close>:
  \<^item> \<open>ErrorString s\<close>: a leaf with text \<open>s\<close>, as made by \<^verbatim>\<open>errors.New(s)\<close> and by
    \<^verbatim>\<open>fmt.Errorf\<close> without \<^verbatim>\<open>%w\<close>; it also stands for a leaf of any other type than
    \<^verbatim>\<open>*apiv1.Error\<close>;
  \<^item> \<open>WrapError s e\<close>: text \<open>s\<close>, \<^verbatim>\<open>Unwrap()\<close> gives \<open>e\<close>, as made by \<^verbatim>\<open>fmt.Errorf\<close> with
    \<^verbatim>\<open>%w\<close>; it also stands for any other wrapping type (\<^verbatim>\<open>*url.Error\<close>, \<^verbatim>\<open>*net.OpError\<close>);
  \<^item> \<open>APIError t m d\<close>: a \<^verbatim>\<open>*apiv1.Error\<close> that points to
    \<^verbatim>\<open>Error{Type: t, Msg: m, Detail: d}\<close>; the type has no \<^verbatim>\<open>Unwrap\<close> method;
  \<^item> \<open>NilAPIError\<close>: a nil pointer of type \<^verbatim>\<open>*apiv1.Error\<close> stored in the error interface
    (\<^verbatim>\<open>var p *apiv1.Error; var err error = p\<close>). The interface value is not nil, its
    dynamic type is \<^verbatim>\<open>*apiv1.Error\<close>, and there is no struct behind it.
  The nil error is \<open>None\<close> of \<open>go_error option\<close>. Error types with an \<^verbatim>\<open>As\<close> method of their
  own are outside this model.
\<close>

datatype go_error =
    ErrorString string
  | WrapError string go_error
  | APIError string string string
  | NilAPIError

text \<open>
  The text of an error where this file reads it, which is under the verb \<^verbatim>\<open>%w\<close> of
  \<^verbatim>\<open>fmt.Errorf\<close> only: the result of the method \<^verbatim>\<open>Error()\<close>, which for \<^verbatim>\<open>*apiv1.Error\<close> is
  \<^verbatim>\<open>fmt.Sprintf("%s: %s", e.Type, e.Msg)\<close>. On the nil pointer that method panics; \<^verbatim>\<open>fmt\<close>
  recovers from the panic of a nil receiver and prints \<^verbatim>\<open><nil>\<close>.
\<close>

fun Error :: "go_error \<Rightarrow> string" where
  "Error (ErrorString s) = s"
| "Error (WrapError s e) = s"
| "Error (APIError t m d) = t @ '': '' @ m"
| "Error NilAPIError = ''<nil>''"

text \<open>\<^verbatim>\<open>errors.Unwrap\<close>: the wrapped error, or nil when the value has no \<^verbatim>\<open>Unwrap\<close> method.\<close>

fun Unwrap :: "go_error \<Rightarrow> go_error option" where
  "Unwrap (ErrorString s) = None"
| "Unwrap (WrapError s e) = Some e"
| "Unwrap (APIError t m d) = None"
| "Unwrap NilAPIError = None"

text \<open>\<^verbatim>\<open>errors.New(s)\<close>, and \<^verbatim>\<open>fmt.Errorf\<close> with a format that has no \<^verbatim>\<open>%w\<close>.\<close>

definition errors_New :: "string \<Rightarrow> go_error" where
  "errors_New s = ErrorString s"

text \<open>
  \<^verbatim>\<open>fmt.Errorf(prefix + "%w", err)\<close>: the text is the prefix followed by the text of \<open>err\<close>,
  and the result wraps \<open>err\<close>.
\<close>

definition Errorf_w :: "string \<Rightarrow> go_error \<Rightarrow> go_error" where
  "Errorf_w prefix err = WrapError (prefix @ Error err) err"

text \<open>
  The pointer \<^verbatim>\<open>e\<close> of type \<^verbatim>\<open>*apiv1.Error\<close> that \<^verbatim>\<open>errors.As\<close> fills: nil, or a pointer to
  a struct with the fields \<^verbatim>\<open>Type\<close>, \<^verbatim>\<open>Msg\<close> and \<^verbatim>\<open>Detail\<close>.
\<close>

datatype api_pointer =
    nil_pointer
  | pointer_to string string string

text \<open>
  \<^verbatim>\<open>errors.As(err, &e)\<close> with \<^verbatim>\<open>var e *apiv1.Error\<close>: the loop of \<^verbatim>\<open>errors.As\<close> looks at
  \<open>err\<close>, then at what it unwraps to, and so on; at the first value whose type is
  \<^verbatim>\<open>*apiv1.Error\<close> it stores that value in \<open>e\<close> and returns true, and at the end of the
  chain it returns false. The test is on the type alone, so a nil pointer of that type is
  stored like any other. The result is \<open>Some\<close> of the pointer stored, and \<open>None\<close> for
  false.
\<close>

fun As_APIError_loop :: "go_error \<Rightarrow> api_pointer option" where
  "As_APIError_loop (APIError t m d) = Some (pointer_to t m d)"
| "As_APIError_loop NilAPIError = Some nil_pointer"
| "As_APIError_loop (WrapError s e) = As_APIError_loop e"
| "As_APIError_loop (ErrorString s) = None"

fun errors_As_APIError :: "go_error option \<Rightarrow> api_pointer option" where
  "errors_As_APIError None = None"
| "errors_As_APIError (Some err) = As_APIError_loop err"

text \<open>
  The chain of an error, as a specification would list it: the error itself, then the
  errors reached by repeated \<^verbatim>\<open>Unwrap\<close>. It is defined without reference to \<^verbatim>\<open>errors.As\<close>.
\<close>

fun chain :: "go_error \<Rightarrow> go_error list" where
  "chain (WrapError s e) = WrapError s e # chain e"
| "chain e = [e]"

fun chain_of :: "go_error option \<Rightarrow> go_error list" where
  "chain_of None = []"
| "chain_of (Some err) = chain err"

text \<open>A value of the type \<^verbatim>\<open>*apiv1.Error\<close>, nil pointer or not.\<close>

fun is_APIError :: "go_error \<Rightarrow> bool" where
  "is_APIError (APIError t m d) = True"
| "is_APIError NilAPIError = True"
| "is_APIError e = False"

section \<open>The error classifier\<close>

text \<open>
  \<^verbatim>\<open>func IsAPIError(err error) bool { var e *apiv1.Error; return errors.As(err, &e) }\<close>
\<close>

definition IsAPIError :: "go_error option \<Rightarrow> bool" where
  "IsAPIError err = (case errors_As_APIError err of Some e \<Rightarrow> True | None \<Rightarrow> False)"

text \<open>
  What a call does: it returns a value, or it panics with a nil pointer dereference.
\<close>

datatype 'a outcome =
    Returns 'a
  | Panics

text \<open>
  \<^verbatim>\<open>func ConvertAPIError(err error) error\<close>: when \<^verbatim>\<open>errors.As\<close> finds a \<^verbatim>\<open>*apiv1.Error\<close>
  it returns \<^verbatim>\<open>fmt.Errorf("%s: %s", e.Msg, e.Detail)\<close>, otherwise \<open>err\<close>. Line 148 reads
  \<^verbatim>\<open>e.Msg\<close> and \<^verbatim>\<open>e.Detail\<close> through the pointer without a nil check, so on the nil pointer
  the call panics.
\<close>

definition ConvertAPIError :: "go_error option \<Rightarrow> go_error option outcome" where
  "ConvertAPIError err =
     (case errors_As_APIError err of
        Some e \<Rightarrow>
          (case e of
             pointer_to t m d \<Rightarrow> Returns (Some (errors_New (m @ '': '' @ d)))
           | nil_pointer \<Rightarrow> Panics)
      | None \<Rightarrow> Returns err)"

section \<open>Data of the instance factory\<close>

text \<open>
  What \<^verbatim>\<open>json.Unmarshal\<close> stores in an \<^verbatim>\<open>interface{}\<close>: nil for \<^verbatim>\<open>null\<close>, a \<^verbatim>\<open>bool\<close>, a
  \<^verbatim>\<open>float64\<close> (always finite after decoding, so a real number), a \<^verbatim>\<open>string\<close>, a slice or a
  map. \<open>JNull\<close> is the nil interface value.
\<close>

datatype json =
    JNull
  | JBool bool
  | JNumber real
  | JString string
  | JArray "json list"
  | JObject "string \<Rightarrow> json option"

type_synonym jsonmap = "string \<rightharpoonup> json"

text \<open>
  Indexing a Go map: \<^verbatim>\<open>m[k]\<close> is the zero value of the element type, here the nil
  interface, when the key is missing.
\<close>

definition index_map :: "jsonmap \<Rightarrow> string \<Rightarrow> json" where
  "index_map m k = (case m k of None \<Rightarrow> JNull | Some v \<Rightarrow> v)"

text \<open>
  The structs of the plugin SDK, with the fields this file reads or writes; the other
  fields of each struct live in the extension slot of the record.
\<close>

record SigV4Config =
  Service :: string

record 'a Options =
  SigV4 :: "'a SigV4Config_scheme option"

record DataSourceInstanceSettings =
  ID :: "64 word"
  URL :: string
  JSONData :: string

text \<open>
  \<^verbatim>\<open>DatasourceInfo\<close>, as the factory fills it:
  \<^verbatim>\<open>DatasourceInfo{ID: settings.ID, URL: settings.URL, TimeInterval: timeInterval, promClient: client}\<close>.
  Its fields \<^verbatim>\<open>ID\<close> and \<^verbatim>\<open>URL\<close> are \<open>dsID\<close> and \<open>dsURL\<close> here, as the settings have fields
  of the same names.
\<close>

record 'c DatasourceInfo =
  dsID :: "64 word"
  dsURL :: string
  TimeInterval :: string
  promClient :: 'c

section \<open>Calls to the collaborators\<close>

text \<open>
  The instance manager (\<^verbatim>\<open>s.im.Get\<close>) and the client factory (\<^verbatim>\<open>client.Create\<close>) are
  collaborators outside this file, so each is a parameter. The world holds the list of the
  calls made to them so far, in order, with their arguments, and whatever state the
  collaborators keep (\<open>env\<close>). \<^verbatim>\<open>client.Create\<close> reads and changes \<open>env\<close> only, and its
  call is appended to the list. The instance manager runs the instance factory itself, so
  it is a function on the whole world; its own call is on the list before it runs.
\<close>

datatype ('p, 'o) call =
    im_Get_call 'p
  | client_Create_call string 'o jsonmap

record ('p, 'o, 'e) world =
  calls :: "('p, 'o) call list"
  env :: 'e

definition call_client_Create ::
  "(string \<Rightarrow> 'o \<Rightarrow> jsonmap \<Rightarrow> 'e \<Rightarrow> (go_error + 'c) \<times> 'e) \<Rightarrow>
   string \<Rightarrow> 'o \<Rightarrow> jsonmap \<Rightarrow> ('p, 'o, 'e) world \<Rightarrow> (go_error + 'c) \<times> ('p, 'o, 'e) world" where
  "call_client_Create client_Create url httpCliOpts jsonData w =
     (case client_Create url httpCliOpts jsonData (env w) of
        (r, e') \<Rightarrow>
          (r, \<lparr>calls = calls w @ [client_Create_call url httpCliOpts jsonData], env = e'\<rparr>))"

definition call_im_Get ::
  "('p \<Rightarrow> ('p, 'o, 'e) world \<Rightarrow> (go_error + 'i) \<times> ('p, 'o, 'e) world) \<Rightarrow>
   'p \<Rightarrow> ('p, 'o, 'e) world \<Rightarrow> (go_error + 'i) \<times> ('p, 'o, 'e) world" where
  "call_im_Get im_Get pluginCtx w =
     im_Get pluginCtx (w\<lparr>calls := calls w @ [im_Get_call pluginCtx]\<rparr>)"

section \<open>The instance factory\<close>

text \<open>
  Lines 70 to 73: \<^verbatim>\<open>if httpCliOpts.SigV4 != nil { httpCliOpts.SigV4.Service = "aps" }\<close>.
\<close>

definition set_SigV4_Service :: "('a, 'b) Options_scheme \<Rightarrow> ('a, 'b) Options_scheme" where
  "set_SigV4_Service httpCliOpts =
     (case SigV4 httpCliOpts of
        None \<Rightarrow> httpCliOpts
      | Some c \<Rightarrow> httpCliOpts\<lparr>SigV4 := Some (c\<lparr>Service := ''aps''\<rparr>)\<rparr>)"

text \<open>
  Lines 75 to 87: \<open>timeInterval\<close> starts as the empty string; when
  \<^verbatim>\<open>jsonData["timeInterval"]\<close> is not nil it must be a string (the type assertion
  \<^verbatim>\<open>timeIntervalJson.(string)\<close>), or the factory returns
  \<^verbatim>\<open>errors.New("invalid time-interval provided")\<close>.
\<close>

definition read_timeInterval :: "jsonmap \<Rightarrow> go_error + string" where
  "read_timeInterval jsonData =
     (let timeIntervalJson = index_map jsonData ''timeInterval'' in
      if timeIntervalJson \<noteq> JNull then
        (case timeIntervalJson of
           JString s \<Rightarrow> Inr s
         | _ \<Rightarrow> Inl (errors_New ''invalid time-interval provided''))
      else Inr '''')"

text \<open>
  The function returned by \<^verbatim>\<open>newInstanceSettings(httpClientProvider)\<close>. Its collaborators
  are parameters: \<open>json_Unmarshal\<close> is \<^verbatim>\<open>json.Unmarshal\<close> into a fresh map,
  \<open>HTTPClientOptions\<close> is the method \<^verbatim>\<open>settings.HTTPClientOptions()\<close>, and \<open>client_Create\<close>
  is \<^verbatim>\<open>client.Create\<close> with the provider and the logger fixed.
\<close>

definition newInstanceSettings ::
  "(string \<Rightarrow> go_error + jsonmap) \<Rightarrow>
   ('s DataSourceInstanceSettings_scheme \<Rightarrow> go_error + ('a, 'b) Options_scheme) \<Rightarrow>
   (string \<Rightarrow> ('a, 'b) Options_scheme \<Rightarrow> jsonmap \<Rightarrow> 'e \<Rightarrow> (go_error + 'c) \<times> 'e) \<Rightarrow>
   's DataSourceInstanceSettings_scheme \<Rightarrow> ('p, ('a, 'b) Options_scheme, 'e) world \<Rightarrow>
   (go_error + 'c DatasourceInfo) \<times> ('p, ('a, 'b) Options_scheme, 'e) world" where
  "newInstanceSettings json_Unmarshal HTTPClientOptions client_Create settings w =
     (case json_Unmarshal (JSONData settings) of
        Inl err \<Rightarrow> (Inl (Errorf_w ''error reading settings: '' err), w)
      | Inr jsonData \<Rightarrow>
          (case HTTPClientOptions settings of
             Inl err \<Rightarrow> (Inl (Errorf_w ''error getting http options: '' err), w)
           | Inr opts \<Rightarrow>
               (let httpCliOpts = set_SigV4_Service opts in
                case read_timeInterval jsonData of
                  Inl err \<Rightarrow> (Inl err, w)
                | Inr timeInterval \<Rightarrow>
                    (case call_client_Create client_Create (URL settings) httpCliOpts jsonData w of
                       (Inl err, w') \<Rightarrow> (Inl err, w')
                     | (Inr client, w') \<Rightarrow>
                         (Inr \<lparr>dsID = ID settings, dsURL = URL settings,
                               TimeInterval = timeInterval, promClient = client\<rparr>, w')))))"

text \<open>
  The method \<^verbatim>\<open>settings.HTTPClientOptions()\<close> is the plugin SDK's. It decodes the same
  \<^verbatim>\<open>JSONData\<close> with \<^verbatim>\<open>json.Unmarshal\<close> into a map of the same type, and that decoding is the
  only place it takes an error from. The predicate says this of a decoder and an options
  method at given settings: where the method fails, the decoding fails.
\<close>

definition HTTPClientOptions_fails_only_on_decode ::
  "(string \<Rightarrow> go_error + jsonmap) \<Rightarrow>
   ('s DataSourceInstanceSettings_scheme \<Rightarrow> go_error + 'o) \<Rightarrow>
   's DataSourceInstanceSettings_scheme \<Rightarrow> bool" where
  "HTTPClientOptions_fails_only_on_decode json_Unmarshal HTTPClientOptions settings \<longleftrightarrow>
     (isl (HTTPClientOptions settings) \<longrightarrow> isl (json_Unmarshal (JSONData settings)))"

section \<open>The dispatcher\<close>

record DataQuery =
  RefID :: string
  QueryType :: string

record ('p, 'q) QueryDataRequest =
  PluginContext :: 'p
  Queries :: "'q DataQuery_scheme list"

record 'r QueryDataResponse =
  Responses :: "string \<rightharpoonup> 'r"

text \<open>
  \<^verbatim>\<open>getDSInfo\<close>: the instance of the plugin context from the instance manager, or its
  error. The manager of this service is built from \<^verbatim>\<open>newInstanceSettings\<close> alone, whose
  instances are \<^verbatim>\<open>DatasourceInfo\<close> values, so the type assertion \<^verbatim>\<open>i.(DatasourceInfo)\<close> is
  the type of \<open>im_Get\<close> here.
\<close>

definition getDSInfo ::
  "('p \<Rightarrow> ('p, 'o, 'e) world \<Rightarrow> (go_error + 'c DatasourceInfo) \<times> ('p, 'o, 'e) world) \<Rightarrow>
   'p \<Rightarrow> ('p, 'o, 'e) world \<Rightarrow> (go_error + 'c DatasourceInfo) \<times> ('p, 'o, 'e) world" where
  "getDSInfo im_Get pluginCtx w =
     (case call_im_Get im_Get pluginCtx w of
        (Inl err, w') \<Rightarrow> (Inl err, w')
      | (Inr instance, w') \<Rightarrow> (Inr instance, w'))"

text \<open>
  \<^verbatim>\<open>QueryData\<close>. The pair returned is the response pointer (\<open>None\<close> for nil) and the error
  (\<open>None\<close> for nil). \<open>executeTimeSeriesQuery\<close> is a method of the service defined in another
  file; it is a parameter. Both arms of the switch on \<^verbatim>\<open>q.QueryType\<close> are written out: the
  case \<^verbatim>\<open>"timeSeriesQuery"\<close> falls through to the default. The request is a value here: a
  nil \<^verbatim>\<open>req\<close> pointer is not an input of the model. \<^verbatim>\<open>req.Queries[0]\<close> is read only on the
  branch where the list is not empty.
\<close>

definition QueryData ::
  "('p \<Rightarrow> ('p, 'o, 'e) world \<Rightarrow> (go_error + 'c DatasourceInfo) \<times> ('p, 'o, 'e) world) \<Rightarrow>
   ('x \<Rightarrow> ('p, 'q) QueryDataRequest \<Rightarrow> 'c DatasourceInfo \<Rightarrow> ('p, 'o, 'e) world \<Rightarrow>
      ('r QueryDataResponse option \<times> go_error option) \<times> ('p, 'o, 'e) world) \<Rightarrow>
   'x \<Rightarrow> ('p, 'q) QueryDataRequest \<Rightarrow> ('p, 'o, 'e) world \<Rightarrow>
   ('r QueryDataResponse option \<times> go_error option) \<times> ('p, 'o, 'e) world" where
  "QueryData im_Get executeTimeSeriesQuery ctx req w =
     (if length (Queries req) = 0 then
        ((Some \<lparr>Responses = Map.empty\<rparr>, Some (errors_New ''query contains no queries'')), w)
      else
        (let q = Queries req ! 0 in
         case getDSInfo im_Get (PluginContext req) w of
           (Inl err, w') \<Rightarrow> ((None, Some err), w')
         | (Inr dsInfo, w') \<Rightarrow>
             (if QueryType q = ''timeSeriesQuery'' then executeTimeSeriesQuery ctx req dsInfo w'
              else executeTimeSeriesQuery ctx req dsInfo w')))"

section \<open>Collaborators of the examples\<close>

text \<open>
  Concrete collaborators, used only where a statement below is evaluated on an input: a
  decoder that knows four settings documents and rejects every other text, HTTP options
  with a SigV4 block for another service, HTTP options that fail, a client factory that
  counts the clients it makes (the client is the URL it is bound to), a client factory
  that fails, an instance manager without a cache that runs the instance factory on the
  settings of the plugin context, and a time-series path that answers every query of the
  batch with the client of the instance.
\<close>

definition example_Unmarshal :: "string \<Rightarrow> go_error + jsonmap" where
  \<open>example_Unmarshal data =
     (if data = ''{}'' then Inr Map.empty
      else if data = ''{"timeInterval":null}'' then Inr [''timeInterval'' \<mapsto> JNull]
      else if data = ''{"timeInterval":"30s"}'' then Inr [''timeInterval'' \<mapsto> JString ''30s'']
      else if data = ''{"timeInterval":5}'' then Inr [''timeInterval'' \<mapsto> JNumber 5]
      else Inl (ErrorString ''unexpected end of JSON input''))\<close>

definition example_HTTPClientOptions :: "DataSourceInstanceSettings \<Rightarrow> go_error + unit Options" where
  "example_HTTPClientOptions settings = Inr \<lparr>SigV4 = Some \<lparr>Service = ''es''\<rparr>\<rparr>"

definition failing_HTTPClientOptions :: "DataSourceInstanceSettings \<Rightarrow> go_error + unit Options" where
  "failing_HTTPClientOptions settings = Inl (ErrorString ''invalid http settings'')"

definition example_Create :: "string \<Rightarrow> unit Options \<Rightarrow> jsonmap \<Rightarrow> nat \<Rightarrow> (go_error + string) \<times> nat" where
  "example_Create url httpCliOpts jsonData n = (Inr url, Suc n)"

definition failing_Create :: "string \<Rightarrow> unit Options \<Rightarrow> jsonmap \<Rightarrow> nat \<Rightarrow> (go_error + string) \<times> nat" where
  "failing_Create url httpCliOpts jsonData n = (Inl (ErrorString ''cannot create client''), n)"

definition example_im_Get ::
  "DataSourceInstanceSettings \<Rightarrow> (DataSourceInstanceSettings, unit Options, nat) world \<Rightarrow>
   (go_error + string DatasourceInfo) \<times> (DataSourceInstanceSettings, unit Options, nat) world" where
  "example_im_Get settings w =
     newInstanceSettings example_Unmarshal example_HTTPClientOptions example_Create settings w"

definition example_executeTimeSeriesQuery ::
  "unit \<Rightarrow> (DataSourceInstanceSettings, unit) QueryDataRequest \<Rightarrow> string DatasourceInfo \<Rightarrow>
   (DataSourceInstanceSettings, unit Options, nat) world \<Rightarrow>
   (string QueryDataResponse option \<times> go_error option) \<times> (DataSourceInstanceSettings, unit Options, nat) world" where
  "example_executeTimeSeriesQuery ctx req dsInfo w =
     ((Some \<lparr>Responses = map_of (map (\<lambda>q. (RefID q, promClient dsInfo)) (Queries req))\<rparr>, None), w)"

section \<open>The error classifier walks the chain\<close>

lemma chain_loop:
  "As_APIError_loop err = Some (pointer_to t m d) \<longleftrightarrow> APIError t m d \<in> set (chain err)"
  by (induction err) auto

lemma chain_loop_nil:
  "As_APIError_loop err = Some nil_pointer \<longleftrightarrow> NilAPIError \<in> set (chain err)"
  by (induction err) auto

lemma loop_none: "As_APIError_loop err = None \<longleftrightarrow> (\<forall>e \<in> set (chain err). \<not> is_APIError e)"
  by (induction err) auto

lemma chain_cases:
  "NilAPIError \<in> set (chain err) \<or> (\<exists>t m d. APIError t m d \<in> set (chain err)) \<or>
   (\<forall>e \<in> set (chain err). \<not> is_APIError e)"
proof (cases "As_APIError_loop err")
  case None
  then show ?thesis by (simp add: loop_none)
next
  case (Some e)
  then show ?thesis
    by (cases e) (auto simp: chain_loop chain_loop_nil)
qed

text \<open>
  C5 as stated fails on an error value that holds a nil pointer of type \<^verbatim>\<open>*apiv1.Error\<close>:
  \<^verbatim>\<open>errors.As\<close> matches it by its type and stores the nil pointer, and line 148 reads
  \<^verbatim>\<open>e.Msg\<close> through it. The call panics: it returns neither a new error nor its input.
  The same happens when the nil pointer is wrapped.
\<close>

theorem ConvertAPIError_nil_pointer_counterexample:
  "chain NilAPIError = [NilAPIError] \<and>
   ConvertAPIError (Some NilAPIError) = Panics \<and>
   ConvertAPIError (Some (WrapError ''query failed: <nil>'' NilAPIError)) = Panics \<and>
   (Panics :: go_error option outcome) \<noteq> Returns (Some NilAPIError)"
  by (simp add: ConvertAPIError_def)

text \<open>
  C5, as the code has it, for every error value whose chain holds no nil pointer of type
  \<^verbatim>\<open>*apiv1.Error\<close>. When the chain of \<open>err\<close> contains a structured API error with message
  \<open>m\<close> and detail \<open>d\<close>, \<^verbatim>\<open>ConvertAPIError(err)\<close> returns a new error, made by \<^verbatim>\<open>fmt.Errorf\<close>
  without wrapping, whose text is \<open>m\<close>, a colon, a space and \<open>d\<close>. When no value of the
  chain has the type \<^verbatim>\<open>*apiv1.Error\<close>, \<^verbatim>\<open>ConvertAPIError(err)\<close> returns \<open>err\<close> itself; the nil
  error stays nil. These two cases are all there are for such an error value.
\<close>

theorem ConvertAPIError_chain:
  "(\<forall>t m d. APIError t m d \<in> set (chain err) \<longrightarrow>
      ConvertAPIError (Some err) = Returns (Some (ErrorString (m @ '': '' @ d)))) \<and>
   ((\<forall>e \<in> set (chain err). \<not> is_APIError e) \<longrightarrow> ConvertAPIError (Some err) = Returns (Some err)) \<and>
   (NilAPIError \<notin> set (chain err) \<longrightarrow>
      (\<exists>t m d. APIError t m d \<in> set (chain err)) \<or> (\<forall>e \<in> set (chain err). \<not> is_APIError e)) \<and>
   ConvertAPIError None = Returns None"
proof (intro conjI allI impI)
  fix t m d
  assume "APIError t m d \<in> set (chain err)"
  then have "As_APIError_loop err = Some (pointer_to t m d)"
    by (simp add: chain_loop)
  then show "ConvertAPIError (Some err) = Returns (Some (ErrorString (m @ '': '' @ d)))"
    by (simp add: ConvertAPIError_def errors_New_def)
next
  assume "\<forall>e \<in> set (chain err). \<not> is_APIError e"
  then have "As_APIError_loop err = None"
    by (simp add: loop_none)
  then show "ConvertAPIError (Some err) = Returns (Some err)"
    by (simp add: ConvertAPIError_def)
next
  assume "NilAPIError \<notin> set (chain err)"
  with chain_cases [of err]
  show "(\<exists>t m d. APIError t m d \<in> set (chain err)) \<or> (\<forall>e \<in> set (chain err). \<not> is_APIError e)"
    by blast
next
  show "ConvertAPIError None = Returns None"
    by (simp add: ConvertAPIError_def)
qed

theorem ConvertAPIError_chain_witness:
  "APIError ''bad_data'' ''bad_data'' ''invalid expression''
     \<in> set (chain (WrapError ''query failed'' (APIError ''bad_data'' ''bad_data'' ''invalid expression''))) \<and>
   NilAPIError
     \<notin> set (chain (WrapError ''query failed'' (APIError ''bad_data'' ''bad_data'' ''invalid expression''))) \<and>
   ConvertAPIError (Some (WrapError ''query failed'' (APIError ''bad_data'' ''bad_data'' ''invalid expression'')))
     = Returns (Some (ErrorString ''bad_data: invalid expression'')) \<and>
   chain (WrapError ''get'' (ErrorString ''i/o timeout''))
     = [WrapError ''get'' (ErrorString ''i/o timeout''), ErrorString ''i/o timeout''] \<and>
   \<not> is_APIError (WrapError ''get'' (ErrorString ''i/o timeout'')) \<and>
   \<not> is_APIError (ErrorString ''i/o timeout'') \<and>
   ConvertAPIError (Some (WrapError ''get'' (ErrorString ''i/o timeout'')))
     = Returns (Some (WrapError ''get'' (ErrorString ''i/o timeout'')))"
  using ConvertAPIError_chain
    [of "WrapError ''query failed'' (APIError ''bad_data'' ''bad_data'' ''invalid expression'')"]
    ConvertAPIError_chain [of "WrapError ''get'' (ErrorString ''i/o timeout'')"]
  by simp

text \<open>
  C6. \<^verbatim>\<open>IsAPIError(err)\<close> is true exactly when some value of the chain of \<open>err\<close> has
  the type \<^verbatim>\<open>*apiv1.Error\<close>. It is false for nil and for every error that is not one and
  wraps nothing. The text of the error plays no part: a structured API error and a plain error
  with the same text are told apart.
\<close>

theorem IsAPIError_chain:
  "(IsAPIError err \<longleftrightarrow> (\<exists>e \<in> set (chain_of err). is_APIError e)) \<and>
   \<not> IsAPIError None \<and>
   \<not> IsAPIError (Some (ErrorString s)) \<and>
   IsAPIError (Some (APIError t m d)) \<and>
   \<not> IsAPIError (Some (ErrorString (Error (APIError t m d))))"
proof -
  have "IsAPIError err \<longleftrightarrow> (\<exists>e \<in> set (chain_of err). is_APIError e)"
  proof (cases err)
    case None
    then show ?thesis by (simp add: IsAPIError_def)
  next
    case (Some x)
    have "(As_APIError_loop x = None) = (\<forall>e \<in> set (chain x). \<not> is_APIError e)"
      by (rule loop_none)
    with Some show ?thesis
      by (cases "As_APIError_loop x") (auto simp: IsAPIError_def)
  qed
  then show ?thesis
    by (simp add: IsAPIError_def)
qed

theorem IsAPIError_chain_witness:
  "(\<exists>e \<in> set (chain_of (Some (WrapError ''query failed'' (APIError ''bad_data'' ''bad_data'' ''invalid expression'')))).
      is_APIError e) \<and>
   IsAPIError (Some (WrapError ''query failed'' (APIError ''bad_data'' ''bad_data'' ''invalid expression''))) \<and>
   \<not> IsAPIError (Some (WrapError ''get'' (ErrorString ''context canceled'')))"
  using IsAPIError_chain
    [of "Some (WrapError ''query failed'' (APIError ''bad_data'' ''bad_data'' ''invalid expression''))"]
    IsAPIError_chain [of "Some (WrapError ''get'' (ErrorString ''context canceled''))"]
  by simp

section \<open>The time interval of the settings\<close>

lemma read_timeInterval_absent:
  "jsonData ''timeInterval'' = None \<or> jsonData ''timeInterval'' = Some JNull \<Longrightarrow>
   read_timeInterval jsonData = Inr ''''"
  by (auto simp: read_timeInterval_def index_map_def)

lemma read_timeInterval_invalid:
  "jsonData ''timeInterval'' = Some v \<Longrightarrow> v \<noteq> JNull \<Longrightarrow> \<forall>s. v \<noteq> JString s \<Longrightarrow>
   read_timeInterval jsonData = Inl (ErrorString ''invalid time-interval provided'')"
  by (cases v) (auto simp: read_timeInterval_def index_map_def errors_New_def)

text \<open>
  C2. When the settings decode to a mapping in which the key \<^verbatim>\<open>timeInterval\<close> is missing
  or null, the time-interval step does not fail: the factory fails only where the HTTP
  options or \<^verbatim>\<open>client.Create\<close> fail, \<^verbatim>\<open>client.Create\<close> is reached whenever the HTTP
  options are there, and every \<^verbatim>\<open>DatasourceInfo\<close> the factory returns has the empty string
  as its \<^verbatim>\<open>TimeInterval\<close>.
\<close>

theorem newInstanceSettings_timeInterval_missing:
  assumes "json_Unmarshal (JSONData settings) = Inr jsonData"
    and "jsonData ''timeInterval'' = None \<or> jsonData ''timeInterval'' = Some JNull"
  shows "read_timeInterval jsonData = Inr '''' \<and>
    newInstanceSettings json_Unmarshal HTTPClientOptions client_Create settings w =
      (case HTTPClientOptions settings of
         Inl err \<Rightarrow> (Inl (Errorf_w ''error getting http options: '' err), w)
       | Inr opts \<Rightarrow>
           (case call_client_Create client_Create (URL settings) (set_SigV4_Service opts) jsonData w of
              (Inl err, w') \<Rightarrow> (Inl err, w')
            | (Inr client, w') \<Rightarrow>
                (Inr \<lparr>dsID = ID settings, dsURL = URL settings, TimeInterval = '''',
                      promClient = client\<rparr>, w'))) \<and>
    (\<forall>info w'. newInstanceSettings json_Unmarshal HTTPClientOptions client_Create settings w = (Inr info, w')
       \<longrightarrow> TimeInterval info = '''')"
proof -
  have ti: "read_timeInterval jsonData = Inr ''''"
    using assms(2) by (rule read_timeInterval_absent)
  have eq: "newInstanceSettings json_Unmarshal HTTPClientOptions client_Create settings w =
      (case HTTPClientOptions settings of
         Inl err \<Rightarrow> (Inl (Errorf_w ''error getting http options: '' err), w)
       | Inr opts \<Rightarrow>
           (case call_client_Create client_Create (URL settings) (set_SigV4_Service opts) jsonData w of
              (Inl err, w') \<Rightarrow> (Inl err, w')
            | (Inr client, w') \<Rightarrow>
                (Inr \<lparr>dsID = ID settings, dsURL = URL settings, TimeInterval = '''',
                      promClient = client\<rparr>, w')))"
    using assms(1) ti by (simp add: newInstanceSettings_def split: sum.splits)
  have "TimeInterval info = ''''"
    if "newInstanceSettings json_Unmarshal HTTPClientOptions client_Create settings w = (Inr info, w')"
    for info w'
    using that unfolding eq by (auto split: sum.splits prod.splits)
  with ti eq show ?thesis by blast
qed

theorem newInstanceSettings_timeInterval_missing_witness:
  \<open>example_Unmarshal (JSONData \<lparr>ID = 7, URL = ''http://localhost:9090'', JSONData = ''{"timeInterval":null}''\<rparr>)
     = Inr [''timeInterval'' \<mapsto> JNull] \<and>
   [''timeInterval'' \<mapsto> JNull] ''timeInterval'' = Some JNull \<and>
   newInstanceSettings example_Unmarshal example_HTTPClientOptions example_Create
     \<lparr>ID = 7, URL = ''http://localhost:9090'', JSONData = ''{"timeInterval":null}''\<rparr>
     (\<lparr>calls = [], env = 0\<rparr> :: (unit, unit Options, nat) world)
   = (Inr \<lparr>dsID = 7, dsURL = ''http://localhost:9090'', TimeInterval = '''',
           promClient = ''http://localhost:9090''\<rparr>,
      \<lparr>calls = [client_Create_call ''http://localhost:9090'' \<lparr>SigV4 = Some \<lparr>Service = ''aps''\<rparr>\<rparr>
                  [''timeInterval'' \<mapsto> JNull]],
       env = 1\<rparr>)\<close>
  using newInstanceSettings_timeInterval_missing
    [of example_Unmarshal \<open>\<lparr>ID = 7, URL = ''http://localhost:9090'', JSONData = ''{"timeInterval":null}''\<rparr>\<close>
        \<open>[''timeInterval'' \<mapsto> JNull]\<close> example_HTTPClientOptions example_Create
        \<open>\<lparr>calls = [], env = 0\<rparr> :: (unit, unit Options, nat) world\<close>]
  by (simp add: example_Unmarshal_def example_HTTPClientOptions_def example_Create_def
      call_client_Create_def set_SigV4_Service_def)

lemma newInstanceSettings_timeInterval_invalid_cases:
  assumes "json_Unmarshal (JSONData settings) = Inr jsonData"
    and "jsonData ''timeInterval'' = Some v"
    and "v \<noteq> JNull"
    and "\<forall>s. v \<noteq> JString s"
  shows "newInstanceSettings json_Unmarshal HTTPClientOptions client_Create settings w =
      (case HTTPClientOptions settings of
         Inl err \<Rightarrow> (Inl (Errorf_w ''error getting http options: '' err), w)
       | Inr opts \<Rightarrow> (Inl (ErrorString ''invalid time-interval provided''), w))"
proof -
  have "read_timeInterval jsonData = Inl (ErrorString ''invalid time-interval provided'')"
    using assms(2-4) by (rule read_timeInterval_invalid)
  with assms(1) show ?thesis
    by (simp add: newInstanceSettings_def split: sum.splits)
qed

text \<open>
  C3. When the settings decode to a mapping in which the key \<^verbatim>\<open>timeInterval\<close> holds a
  value that is neither null nor a string, the factory fails with the error
  \<^verbatim>\<open>invalid time-interval provided\<close> and \<^verbatim>\<open>client.Create\<close> is not called: the list of
  calls and the state of the collaborators are as before. The method
  \<^verbatim>\<open>settings.HTTPClientOptions()\<close>, which runs before the time interval is read, is the
  SDK's: it fails only where the decoding of the same \<^verbatim>\<open>JSONData\<close> fails, and here the
  decoding has succeeded.
\<close>

theorem newInstanceSettings_timeInterval_invalid:
  assumes "json_Unmarshal (JSONData settings) = Inr jsonData"
    and "jsonData ''timeInterval'' = Some v"
    and "v \<noteq> JNull"
    and "\<forall>s. v \<noteq> JString s"
    and "HTTPClientOptions_fails_only_on_decode json_Unmarshal HTTPClientOptions settings"
  shows "newInstanceSettings json_Unmarshal HTTPClientOptions client_Create settings w =
      (Inl (ErrorString ''invalid time-interval provided''), w) \<and>
    calls (snd (newInstanceSettings json_Unmarshal HTTPClientOptions client_Create settings w)) = calls w"
proof -
  from assms(1,5) have "\<not> isl (HTTPClientOptions settings)"
    by (simp add: HTTPClientOptions_fails_only_on_decode_def)
  then obtain opts where "HTTPClientOptions settings = Inr opts"
    by (cases "HTTPClientOptions settings") auto
  moreover have "newInstanceSettings json_Unmarshal HTTPClientOptions client_Create settings w =
      (case HTTPClientOptions settings of
         Inl err \<Rightarrow> (Inl (Errorf_w ''error getting http options: '' err), w)
       | Inr opts \<Rightarrow> (Inl (ErrorString ''invalid time-interval provided''), w))"
    using assms(1-4) by (rule newInstanceSettings_timeInterval_invalid_cases)
  ultimately have "newInstanceSettings json_Unmarshal HTTPClientOptions client_Create settings w =
      (Inl (ErrorString ''invalid time-interval provided''), w)"
    by simp
  then show ?thesis by simp
qed

theorem newInstanceSettings_timeInterval_invalid_witness:
  \<open>example_Unmarshal (JSONData \<lparr>ID = 7, URL = ''http://localhost:9090'', JSONData = ''{"timeInterval":5}''\<rparr>)
     = Inr [''timeInterval'' \<mapsto> JNumber 5] \<and>
   [''timeInterval'' \<mapsto> JNumber 5] ''timeInterval'' = Some (JNumber 5) \<and>
   JNumber 5 \<noteq> JNull \<and> (\<forall>s. JNumber 5 \<noteq> JString s) \<and>
   HTTPClientOptions_fails_only_on_decode example_Unmarshal example_HTTPClientOptions
     \<lparr>ID = 7, URL = ''http://localhost:9090'', JSONData = ''{"timeInterval":5}''\<rparr> \<and>
   newInstanceSettings example_Unmarshal example_HTTPClientOptions example_Create
     \<lparr>ID = 7, URL = ''http://localhost:9090'', JSONData = ''{"timeInterval":5}''\<rparr>
     (\<lparr>calls = [], env = 0\<rparr> :: (unit, unit Options, nat) world)
   = (Inl (ErrorString ''invalid time-interval provided''), \<lparr>calls = [], env = 0\<rparr>)\<close>
  using newInstanceSettings_timeInterval_invalid
    [of example_Unmarshal \<open>\<lparr>ID = 7, URL = ''http://localhost:9090'', JSONData = ''{"timeInterval":5}''\<rparr>\<close>
        \<open>[''timeInterval'' \<mapsto> JNumber 5]\<close> \<open>JNumber 5\<close> example_HTTPClientOptions example_Create
        \<open>\<lparr>calls = [], env = 0\<rparr> :: (unit, unit Options, nat) world\<close>]
  by (simp add: example_Unmarshal_def example_HTTPClientOptions_def
      HTTPClientOptions_fails_only_on_decode_def)

section \<open>The SigV4 service namespace\<close>

text \<open>
  C4. When the HTTP client options hold a SigV4 block, the step of lines 70 to 73 leaves a
  block whose \<^verbatim>\<open>Service\<close> is \<^verbatim>\<open>aps\<close>, whatever it was, and changes nothing else of the
  block or of the options; without a SigV4 block the options are unchanged. The options
  the factory hands to \<^verbatim>\<open>client.Create\<close>, in the only call it makes, are the options after
  that step.
\<close>

theorem set_SigV4_Service_aps:
  "(\<forall>c. SigV4 opts = Some c \<longrightarrow>
      SigV4 (set_SigV4_Service opts) = Some (c\<lparr>Service := ''aps''\<rparr>) \<and>
      map_option Service (SigV4 (set_SigV4_Service opts)) = Some ''aps'' \<and>
      Options.more (set_SigV4_Service opts) = Options.more opts) \<and>
   (SigV4 opts = None \<longrightarrow> set_SigV4_Service opts = opts) \<and>
   (json_Unmarshal (JSONData settings) = Inr jsonData \<and> HTTPClientOptions settings = Inr opts \<longrightarrow>
      calls (snd (newInstanceSettings json_Unmarshal HTTPClientOptions client_Create settings w)) =
        (case read_timeInterval jsonData of
           Inl err \<Rightarrow> calls w
         | Inr timeInterval \<Rightarrow>
             calls w @ [client_Create_call (URL settings) (set_SigV4_Service opts) jsonData]))"
proof (intro conjI allI impI)
  fix c
  assume "SigV4 opts = Some c"
  then show "SigV4 (set_SigV4_Service opts) = Some (c\<lparr>Service := ''aps''\<rparr>)"
    and "map_option Service (SigV4 (set_SigV4_Service opts)) = Some ''aps''"
    and "Options.more (set_SigV4_Service opts) = Options.more opts"
    by (simp_all add: set_SigV4_Service_def)
next
  assume "SigV4 opts = None"
  then show "set_SigV4_Service opts = opts"
    by (simp add: set_SigV4_Service_def)
next
  assume "json_Unmarshal (JSONData settings) = Inr jsonData \<and> HTTPClientOptions settings = Inr opts"
  then show "calls (snd (newInstanceSettings json_Unmarshal HTTPClientOptions client_Create settings w)) =
        (case read_timeInterval jsonData of
           Inl err \<Rightarrow> calls w
         | Inr timeInterval \<Rightarrow>
             calls w @ [client_Create_call (URL settings) (set_SigV4_Service opts) jsonData])"
    by (simp add: newInstanceSettings_def call_client_Create_def split: sum.splits prod.splits)
qed

theorem set_SigV4_Service_aps_witness:
  \<open>SigV4 \<lparr>SigV4 = Some \<lparr>Service = ''es''\<rparr>\<rparr> = Some \<lparr>Service = ''es''\<rparr> \<and>
   set_SigV4_Service \<lparr>SigV4 = Some \<lparr>Service = ''es''\<rparr>\<rparr> = \<lparr>SigV4 = Some \<lparr>Service = ''aps''\<rparr>\<rparr> \<and>
   SigV4 \<lparr>SigV4 = None :: SigV4Config option\<rparr> = None \<and>
   set_SigV4_Service \<lparr>SigV4 = None :: SigV4Config option\<rparr> = \<lparr>SigV4 = None\<rparr> \<and>
   example_Unmarshal (JSONData \<lparr>ID = 7, URL = ''http://localhost:9090'', JSONData = ''{"timeInterval":"30s"}''\<rparr>)
     = Inr [''timeInterval'' \<mapsto> JString ''30s''] \<and>
   example_HTTPClientOptions \<lparr>ID = 7, URL = ''http://localhost:9090'', JSONData = ''{"timeInterval":"30s"}''\<rparr>
     = Inr \<lparr>SigV4 = Some \<lparr>Service = ''es''\<rparr>\<rparr> \<and>
   calls (snd (newInstanceSettings example_Unmarshal example_HTTPClientOptions example_Create
     \<lparr>ID = 7, URL = ''http://localhost:9090'', JSONData = ''{"timeInterval":"30s"}''\<rparr>
     (\<lparr>calls = [], env = 0\<rparr> :: (unit, unit Options, nat) world)))
   = [client_Create_call ''http://localhost:9090'' \<lparr>SigV4 = Some \<lparr>Service = ''aps''\<rparr>\<rparr>
        [''timeInterval'' \<mapsto> JString ''30s'']]\<close>
  using set_SigV4_Service_aps
    [of \<open>\<lparr>SigV4 = Some \<lparr>Service = ''es''\<rparr>\<rparr>\<close> example_Unmarshal
        \<open>\<lparr>ID = 7, URL = ''http://localhost:9090'', JSONData = ''{"timeInterval":"30s"}''\<rparr>\<close>
        \<open>[''timeInterval'' \<mapsto> JString ''30s'']\<close> example_HTTPClientOptions example_Create
        \<open>\<lparr>calls = [], env = 0\<rparr> :: (unit, unit Options, nat) world\<close>]
    set_SigV4_Service_aps
    [of \<open>\<lparr>SigV4 = None :: SigV4Config option\<rparr>\<close> example_Unmarshal
        \<open>\<lparr>ID = 7, URL = ''http://localhost:9090'', JSONData = ''{"timeInterval":"30s"}''\<rparr>\<close>
        \<open>[''timeInterval'' \<mapsto> JString ''30s'']\<close> example_HTTPClientOptions example_Create
        \<open>\<lparr>calls = [], env = 0\<rparr> :: (unit, unit Options, nat) world\<close>]
  by (simp add: example_Unmarshal_def example_HTTPClientOptions_def read_timeInterval_def index_map_def)

section \<open>Errors of the instance factory\<close>

text \<open>
  C8 as stated fails: the error of \<^verbatim>\<open>client.Create\<close> is returned as it is (line 91,
  \<^verbatim>\<open>return nil, err\<close>). Here \<^verbatim>\<open>client.Create\<close> fails with a plain error; the factory
  returns that same value, which wraps nothing and whose text has no context added.
\<close>

theorem client_Create_failure_counterexample:
  \<open>failing_Create ''http://localhost:9090'' \<lparr>SigV4 = Some \<lparr>Service = ''aps''\<rparr>\<rparr> Map.empty 0
     = (Inl (ErrorString ''cannot create client''), 0) \<and>
   fst (newInstanceSettings example_Unmarshal example_HTTPClientOptions failing_Create
     \<lparr>ID = 7, URL = ''http://localhost:9090'', JSONData = ''{}''\<rparr>
     (\<lparr>calls = [], env = 0\<rparr> :: (unit, unit Options, nat) world))
   = Inl (ErrorString ''cannot create client'') \<and>
   Unwrap (ErrorString ''cannot create client'') = None \<and>
   Error (ErrorString ''cannot create client'') = ''cannot create client''\<close>
  by (simp add: newInstanceSettings_def example_Unmarshal_def example_HTTPClientOptions_def
      failing_Create_def call_client_Create_def set_SigV4_Service_def read_timeInterval_def
      index_map_def)

text \<open>
  C8, as the code has it. An error of \<^verbatim>\<open>client.Create\<close> is returned to the caller of the
  factory unchanged, without a wrapper. An error of \<^verbatim>\<open>json.Unmarshal\<close> is returned wrapped,
  with \<^verbatim>\<open>error reading settings: \<close> before its text, and an error of
  \<^verbatim>\<open>settings.HTTPClientOptions()\<close> is returned wrapped, with
  \<^verbatim>\<open>error getting http options: \<close> before its text. In each of the three cases the factory
  returns an error: none is swallowed.
\<close>

theorem newInstanceSettings_error_propagation:
  "(json_Unmarshal (JSONData settings) = Inr jsonData \<and> HTTPClientOptions settings = Inr opts \<and>
    read_timeInterval jsonData = Inr timeInterval \<and>
    client_Create (URL settings) (set_SigV4_Service opts) jsonData (env w) = (Inl err, e') \<longrightarrow>
      fst (newInstanceSettings json_Unmarshal HTTPClientOptions client_Create settings w) = Inl err) \<and>
   (json_Unmarshal (JSONData settings) = Inl err \<longrightarrow>
      fst (newInstanceSettings json_Unmarshal HTTPClientOptions client_Create settings w) =
        Inl (WrapError (''error reading settings: '' @ Error err) err)) \<and>
   (json_Unmarshal (JSONData settings) = Inr jsonData \<and> HTTPClientOptions settings = Inl err \<longrightarrow>
      fst (newInstanceSettings json_Unmarshal HTTPClientOptions client_Create settings w) =
        Inl (WrapError (''error getting http options: '' @ Error err) err))"
  by (simp add: newInstanceSettings_def call_client_Create_def Errorf_w_def)

theorem newInstanceSettings_error_propagation_witness:
  \<open>fst (newInstanceSettings example_Unmarshal example_HTTPClientOptions failing_Create
     \<lparr>ID = 7, URL = ''http://localhost:9090'', JSONData = ''{}''\<rparr>
     (\<lparr>calls = [], env = 0\<rparr> :: (unit, unit Options, nat) world))
   = Inl (ErrorString ''cannot create client'') \<and>
   fst (newInstanceSettings example_Unmarshal example_HTTPClientOptions failing_Create
     \<lparr>ID = 7, URL = ''http://localhost:9090'', JSONData = ''''\<rparr>
     (\<lparr>calls = [], env = 0\<rparr> :: (unit, unit Options, nat) world))
   = Inl (WrapError ''error reading settings: unexpected end of JSON input''
           (ErrorString ''unexpected end of JSON input'')) \<and>
   fst (newInstanceSettings example_Unmarshal failing_HTTPClientOptions failing_Create
     \<lparr>ID = 7, URL = ''http://localhost:9090'', JSONData = ''{}''\<rparr>
     (\<lparr>calls = [], env = 0\<rparr> :: (unit, unit Options, nat) world))
   = Inl (WrapError ''error getting http options: invalid http settings''
           (ErrorString ''invalid http settings''))\<close>
  using newInstanceSettings_error_propagation
    [of example_Unmarshal \<open>\<lparr>ID = 7, URL = ''http://localhost:9090'', JSONData = ''{}''\<rparr>\<close>
        Map.empty example_HTTPClientOptions \<open>\<lparr>SigV4 = Some \<lparr>Service = ''es''\<rparr>\<rparr>\<close> \<open>''''\<close>
        failing_Create \<open>\<lparr>calls = [], env = 0\<rparr> :: (unit, unit Options, nat) world\<close>
        \<open>ErrorString ''cannot create client''\<close> 0]
    newInstanceSettings_error_propagation
    [of example_Unmarshal \<open>\<lparr>ID = 7, URL = ''http://localhost:9090'', JSONData = ''''\<rparr>\<close>
        Map.empty example_HTTPClientOptions \<open>\<lparr>SigV4 = Some \<lparr>Service = ''es''\<rparr>\<rparr>\<close> \<open>''''\<close>
        failing_Create \<open>\<lparr>calls = [], env = 0\<rparr> :: (unit, unit Options, nat) world\<close>
        \<open>ErrorString ''unexpected end of JSON input''\<close> 0]
    newInstanceSettings_error_propagation
    [of example_Unmarshal \<open>\<lparr>ID = 7, URL = ''http://localhost:9090'', JSONData = ''{}''\<rparr>\<close>
        Map.empty failing_HTTPClientOptions \<open>\<lparr>SigV4 = Some \<lparr>Service = ''es''\<rparr>\<rparr>\<close> \<open>''''\<close>
        failing_Create \<open>\<lparr>calls = [], env = 0\<rparr> :: (unit, unit Options, nat) world\<close>
        \<open>ErrorString ''invalid http settings''\<close> 0]
  by (simp add: example_Unmarshal_def example_HTTPClientOptions_def failing_HTTPClientOptions_def
      failing_Create_def read_timeInterval_def index_map_def)

section \<open>The dispatcher on a batch of queries\<close>

text \<open>
  C1. On a request with no queries \<^verbatim>\<open>QueryData\<close> returns the error
  \<^verbatim>\<open>query contains no queries\<close> and leaves the world as it was, whatever the instance
  manager and the time-series path are: nothing is added to the list of calls, so neither
  \<^verbatim>\<open>im.Get\<close> nor \<^verbatim>\<open>client.Create\<close> ran, and the state of the collaborators is unchanged.
\<close>

theorem QueryData_empty_batch:
  assumes "Queries req = []"
  shows "QueryData im_Get executeTimeSeriesQuery ctx req w =
      ((Some \<lparr>Responses = Map.empty\<rparr>, Some (ErrorString ''query contains no queries'')), w) \<and>
    calls (snd (QueryData im_Get executeTimeSeriesQuery ctx req w)) = calls w"
  using assms by (simp add: QueryData_def errors_New_def)

theorem QueryData_empty_batch_witness:
  \<open>Queries \<lparr>PluginContext = \<lparr>ID = 7, URL = ''http://localhost:9090'', JSONData = ''{}''\<rparr>,
            Queries = [] :: DataQuery list\<rparr> = [] \<and>
   QueryData example_im_Get example_executeTimeSeriesQuery ()
     \<lparr>PluginContext = \<lparr>ID = 7, URL = ''http://localhost:9090'', JSONData = ''{}''\<rparr>, Queries = []\<rparr>
     \<lparr>calls = [], env = 0\<rparr>
   = ((Some \<lparr>Responses = Map.empty\<rparr>, Some (ErrorString ''query contains no queries'')),
      \<lparr>calls = [], env = 0\<rparr>)\<close>
  using QueryData_empty_batch
    [of \<open>\<lparr>PluginContext = \<lparr>ID = 7, URL = ''http://localhost:9090'', JSONData = ''{}''\<rparr>,
            Queries = [] :: DataQuery list\<rparr>\<close>
        example_im_Get example_executeTimeSeriesQuery \<open>()\<close> \<open>\<lparr>calls = [], env = 0\<rparr>\<close>]
  by simp

text \<open>
  C7. On a request with at least one query, \<^verbatim>\<open>QueryData\<close> asks the instance manager for
  the instance and, when it gets one, returns what \<^verbatim>\<open>executeTimeSeriesQuery\<close> returns on
  the request and that instance. The right-hand side does not read \<^verbatim>\<open>QueryType\<close>: the tag
  of the first query, whether \<^verbatim>\<open>timeSeriesQuery\<close>, empty or any other text, changes nothing,
  and the only error \<^verbatim>\<open>QueryData\<close> makes itself on such a request is the one of the
  instance manager.
\<close>

theorem QueryData_routes_to_time_series:
  assumes "Queries req \<noteq> []"
  shows "QueryData im_Get executeTimeSeriesQuery ctx req w =
      (case call_im_Get im_Get (PluginContext req) w of
         (Inl err, w') \<Rightarrow> ((None, Some err), w')
       | (Inr dsInfo, w') \<Rightarrow> executeTimeSeriesQuery ctx req dsInfo w')"
  using assms by (simp add: QueryData_def getDSInfo_def split: prod.splits sum.splits)

theorem QueryData_routes_to_time_series_witness:
  \<open>Queries \<lparr>PluginContext = \<lparr>ID = 7, URL = ''http://localhost:9090'', JSONData = ''{}''\<rparr>,
            Queries = [\<lparr>RefID = ''A'', QueryType = ''''\<rparr>]\<rparr> \<noteq> [] \<and>
   QueryData example_im_Get example_executeTimeSeriesQuery ()
     \<lparr>PluginContext = \<lparr>ID = 7, URL = ''http://localhost:9090'', JSONData = ''{}''\<rparr>,
      Queries = [\<lparr>RefID = ''A'', QueryType = ''''\<rparr>]\<rparr>
     \<lparr>calls = [], env = 0\<rparr>
   = ((Some \<lparr>Responses = [''A'' \<mapsto> ''http://localhost:9090'']\<rparr>, None),
      \<lparr>calls = [im_Get_call \<lparr>ID = 7, URL = ''http://localhost:9090'', JSONData = ''{}''\<rparr>,
                client_Create_call ''http://localhost:9090'' \<lparr>SigV4 = Some \<lparr>Service = ''aps''\<rparr>\<rparr> Map.empty],
       env = 1\<rparr>) \<and>
   QueryData example_im_Get example_executeTimeSeriesQuery ()
     \<lparr>PluginContext = \<lparr>ID = 7, URL = ''http://localhost:9090'', JSONData = ''{}''\<rparr>,
      Queries = [\<lparr>RefID = ''A'', QueryType = ''exemplar''\<rparr>]\<rparr>
     \<lparr>calls = [], env = 0\<rparr>
   = ((Some \<lparr>Responses = [''A'' \<mapsto> ''http://localhost:9090'']\<rparr>, None),
      \<lparr>calls = [im_Get_call \<lparr>ID = 7, URL = ''http://localhost:9090'', JSONData = ''{}''\<rparr>,
                client_Create_call ''http://localhost:9090'' \<lparr>SigV4 = Some \<lparr>Service = ''aps''\<rparr>\<rparr> Map.empty],
       env = 1\<rparr>) \<and>
   QueryData example_im_Get example_executeTimeSeriesQuery ()
     \<lparr>PluginContext = \<lparr>ID = 7, URL = ''http://localhost:9090'', JSONData = ''{}''\<rparr>,
      Queries = [\<lparr>RefID = ''A'', QueryType = ''timeSeriesQuery''\<rparr>]\<rparr>
     \<lparr>calls = [], env = 0\<rparr>
   = ((Some \<lparr>Responses = [''A'' \<mapsto> ''http://localhost:9090'']\<rparr>, None),
      \<lparr>calls = [im_Get_call \<lparr>ID = 7, URL = ''http://localhost:9090'', JSONData = ''{}''\<rparr>,
                client_Create_call ''http://localhost:9090'' \<lparr>SigV4 = Some \<lparr>Service = ''aps''\<rparr>\<rparr> Map.empty],
       env = 1\<rparr>)\<close>
  using QueryData_routes_to_time_series
    [of \<open>\<lparr>PluginContext = \<lparr>ID = 7, URL = ''http://localhost:9090'', JSONData = ''{}''\<rparr>,
            Queries = [\<lparr>RefID = ''A'', QueryType = ''''\<rparr>]\<rparr>\<close>
        example_im_Get example_executeTimeSeriesQuery \<open>()\<close> \<open>\<lparr>calls = [], env = 0\<rparr>\<close>]
    QueryData_routes_to_time_series
    [of \<open>\<lparr>PluginContext = \<lparr>ID = 7, URL = ''http://localhost:9090'', JSONData = ''{}''\<rparr>,
            Queries = [\<lparr>RefID = ''A'', QueryType = ''exemplar''\<rparr>]\<rparr>\<close>
        example_im_Get example_executeTimeSeriesQuery \<open>()\<close> \<open>\<lparr>calls = [], env = 0\<rparr>\<close>]
    QueryData_routes_to_time_series
    [of \<open>\<lparr>PluginContext = \<lparr>ID = 7, URL = ''http://localhost:9090'', JSONData = ''{}''\<rparr>,
            Queries = [\<lparr>RefID = ''A'', QueryType = ''timeSeriesQuery''\<rparr>]\<rparr>\<close>
        example_im_Get example_executeTimeSeriesQuery \<open>()\<close> \<open>\<lparr>calls = [], env = 0\<rparr>\<close>]
  by (simp add: call_im_Get_def example_im_Get_def newInstanceSettings_def example_Unmarshal_def
      example_HTTPClientOptions_def example_Create_def call_client_Create_def set_SigV4_Service_def
      read_timeInterval_def index_map_def example_executeTimeSeriesQuery_def)

text \<open>
  C10. On a request with no queries the response returned with the error is not nil: it
  is an empty \<^verbatim>\<open>QueryDataResponse\<close>. When the instance manager fails on a request with
  queries, the response returned with its error is nil. So an error comes with a response
  in one case and without one in the other.
\<close>

theorem QueryData_response_nil_or_not:
  "(Queries req = [] \<longrightarrow>
      fst (QueryData im_Get executeTimeSeriesQuery ctx req w) =
        (Some \<lparr>Responses = Map.empty\<rparr>, Some (ErrorString ''query contains no queries''))) \<and>
   (Queries req \<noteq> [] \<and> call_im_Get im_Get (PluginContext req) w = (Inl err, w') \<longrightarrow>
      fst (QueryData im_Get executeTimeSeriesQuery ctx req w) = (None, Some err))"
  by (simp add: QueryData_def getDSInfo_def errors_New_def)

theorem QueryData_response_nil_or_not_witness:
  \<open>fst (QueryData example_im_Get example_executeTimeSeriesQuery ()
     \<lparr>PluginContext = \<lparr>ID = 7, URL = ''http://localhost:9090'', JSONData = ''{}''\<rparr>, Queries = []\<rparr>
     \<lparr>calls = [], env = 0\<rparr>)
   = (Some \<lparr>Responses = Map.empty\<rparr>, Some (ErrorString ''query contains no queries'')) \<and>
   call_im_Get example_im_Get \<lparr>ID = 7, URL = ''http://localhost:9090'', JSONData = ''''\<rparr>
     \<lparr>calls = [], env = 0\<rparr>
   = (Inl (WrapError ''error reading settings: unexpected end of JSON input''
            (ErrorString ''unexpected end of JSON input'')),
      \<lparr>calls = [im_Get_call \<lparr>ID = 7, URL = ''http://localhost:9090'', JSONData = ''''\<rparr>], env = 0\<rparr>) \<and>
   fst (QueryData example_im_Get example_executeTimeSeriesQuery ()
     \<lparr>PluginContext = \<lparr>ID = 7, URL = ''http://localhost:9090'', JSONData = ''''\<rparr>,
      Queries = [\<lparr>RefID = ''A'', QueryType = ''timeSeriesQuery''\<rparr>]\<rparr>
     \<lparr>calls = [], env = 0\<rparr>)
   = (None, Some (WrapError ''error reading settings: unexpected end of JSON input''
                    (ErrorString ''unexpected end of JSON input'')))\<close>
  using QueryData_response_nil_or_not
    [of \<open>\<lparr>PluginContext = \<lparr>ID = 7, URL = ''http://localhost:9090'', JSONData = ''{}''\<rparr>,
            Queries = [] :: DataQuery list\<rparr>\<close>
        example_im_Get example_executeTimeSeriesQuery \<open>()\<close> \<open>\<lparr>calls = [], env = 0\<rparr>\<close>]
    QueryData_response_nil_or_not
    [of \<open>\<lparr>PluginContext = \<lparr>ID = 7, URL = ''http://localhost:9090'', JSONData = ''''\<rparr>,
            Queries = [\<lparr>RefID = ''A'', QueryType = ''timeSeriesQuery''\<rparr>]\<rparr>\<close>
        example_im_Get example_executeTimeSeriesQuery \<open>()\<close> \<open>\<lparr>calls = [], env = 0\<rparr>\<close>
        \<open>WrapError ''error reading settings: unexpected end of JSON input''
            (ErrorString ''unexpected end of JSON input'')\<close>
        \<open>\<lparr>calls = [im_Get_call \<lparr>ID = 7, URL = ''http://localhost:9090'', JSONData = ''''\<rparr>], env = 0\<rparr>\<close>]
  by (simp add: call_im_Get_def example_im_Get_def newInstanceSettings_def example_Unmarshal_def
      Errorf_w_def)

end
